theory Spec2Isabelle
  imports Main "HOL-Library.AList"
begin

section \<open>JavaScript values held in the loosely typed snapshot fields\<close>

text \<open>
  The audit log keeps its before/after snapshots in fields of schema type Mixed, so any
  JavaScript value can arrive there.  Numbers are modelled by the integers and a separate
  NaN (the code only ever tests a number for truthiness), plain objects by the list of
  their own enumerable properties in order.
\<close>

datatype jsval =
    JUndefined
  | JNull
  | JBool bool
  | JNum int
  | JNaN
  | JStr string
  | JArr "jsval list"
  | JObj "(string \<times> jsval) list"

text \<open>ToBoolean, as used by \<^verbatim>\<open>if (x)\<close> and \<^verbatim>\<open>!x\<close>.\<close>

fun truthy :: "jsval \<Rightarrow> bool" where
  "truthy JUndefined = False"
| "truthy JNull = False"
| "truthy (JBool b) = b"
| "truthy (JNum n) = (n \<noteq> 0)"
| "truthy JNaN = False"
| "truthy (JStr s) = (s \<noteq> [])"
| "truthy (JArr xs) = True"
| "truthy (JObj ps) = True"

text \<open>The \<^verbatim>\<open>typeof\<close> operator.\<close>

fun typeof :: "jsval \<Rightarrow> string" where
  "typeof JUndefined = ''undefined''"
| "typeof JNull = ''object''"
| "typeof (JBool b) = ''boolean''"
| "typeof (JNum n) = ''number''"
| "typeof JNaN = ''number''"
| "typeof (JStr s) = ''string''"
| "typeof (JArr xs) = ''object''"
| "typeof (JObj ps) = ''object''"

text \<open>Decimal rendering of an array index, the property name an array element has.\<close>

fun string_of_nat :: "nat \<Rightarrow> string" where
  "string_of_nat n =
     (if n < 10 then [''0123456789'' ! n]
      else string_of_nat (n div 10) @ [''0123456789'' ! (n mod 10)])"

declare string_of_nat.simps [simp del]

text \<open>
  Object spread \<^verbatim>\<open>{ ...data }\<close>: a fresh object with the own enumerable properties of
  \<open>data\<close>; an array contributes its elements and a string its characters under their
  indices, the other primitives nothing.
\<close>

fun spread :: "jsval \<Rightarrow> (string \<times> jsval) list" where
  "spread (JObj ps) = ps"
| "spread (JArr xs) = zip (map string_of_nat [0..<length xs]) xs"
| "spread (JStr s) = zip (map string_of_nat [0..<length s]) (map (\<lambda>c. JStr [c]) s)"
| "spread v = []"

text \<open>Property read \<^verbatim>\<open>obj[k]\<close> on a plain object: \<^verbatim>\<open>undefined\<close> when the key is absent.\<close>

definition prop_get :: "(string \<times> jsval) list \<Rightarrow> string \<Rightarrow> jsval" where
  "prop_get ps k = (case map_of ps k of None \<Rightarrow> JUndefined | Some v \<Rightarrow> v)"

text \<open>Property write \<^verbatim>\<open>obj[k] = v\<close>: overwrite in place, or append a new property.\<close>

definition prop_set :: "string \<Rightarrow> jsval \<Rightarrow> (string \<times> jsval) list \<Rightarrow> (string \<times> jsval) list" where
  "prop_set k v ps = AList.update k v ps"

section \<open>Redaction: \<^verbatim>\<open>ActivityLogSchema.methods.sanitizeData\<close>\<close>

definition sensitiveFields :: "string list" where
  "sensitiveFields = [''password'', ''card_number'', ''cvv'', ''ssn'', ''tax_id'']"

definition REDACTED :: jsval where
  "REDACTED = JStr ''***REDACTED***''"

text \<open>The body of the \<^verbatim>\<open>forEach\<close> callback.\<close>

definition redact_field :: "string \<Rightarrow> (string \<times> jsval) list \<Rightarrow> (string \<times> jsval) list" where
  "redact_field field sanitized =
     (if truthy (prop_get sanitized field) then prop_set field REDACTED sanitized
      else sanitized)"

definition sanitizeData :: "jsval \<Rightarrow> jsval" where
  "sanitizeData data =
     (if \<not> truthy data \<or> typeof data \<noteq> ''object'' then data
      else JObj (fold redact_field sensitiveFields (spread data)))"

section \<open>The audit log: \<^verbatim>\<open>ActivityLog\<close>\<close>

text \<open>
  Object ids are modelled by natural numbers, dates by milliseconds since the epoch.
  The string arguments that the schema casts to object ids are taken as ids already.
\<close>

type_synonym oid = nat

record activity_log =
  log_id :: oid
  changed_by :: oid
  entity_id :: oid
  entity_type :: string
  action :: string
  old_data :: jsval
  new_data :: jsval
  created_at :: int

text \<open>
  A failed operation.  A validation error lists, per failing path in schema order, the
  message of the first validator of that path that rejected the value.  A cast error is
  raised when a query value cannot be cast to the type of its path, a syntax error by
  \<^verbatim>\<open>new RegExp\<close> on an ill-formed pattern.
\<close>

datatype error =
    ValidationError "(string \<times> string) list"
  | Error string
  | DocumentNotFoundError
  | CastError
  | SyntaxError

definition entity_type_values :: "string list" where
  "entity_type_values =
     [''users'', ''customers'', ''leads'', ''projects'', ''project_services'',
      ''goals'', ''tasks'', ''files'', ''notifications'', ''notification_types'',
      ''messages'', ''message_attachments'', ''business_directories'',
      ''customer_charge_details'', ''upsells'']"

definition action_values :: "string list" where
  "action_values = [''create'', ''update'', ''delete'', ''view'']"

text \<open>
  The validators of the two string paths.  A required string must be non-empty; the
  required validator runs before the enum validator.
\<close>

definition validate_entity_type :: "string \<Rightarrow> (string \<times> string) list" where
  "validate_entity_type v =
     (if v = [] then [(''entity_type'', ''Entity type is required'')]
      else if v \<notin> set entity_type_values
        then [(''entity_type'', ''Entity type must be a valid collection name'')]
      else [])"

definition validate_action :: "string \<Rightarrow> (string \<times> string) list" where
  "validate_action v =
     (if v = [] then [(''action'', ''Action is required'')]
      else if v \<notin> set action_values
        then [(''action'', ''Action must be one of: create, update, delete, view'')]
      else [])"

definition ActivityLog_validate :: "activity_log \<Rightarrow> (string \<times> string) list" where
  "ActivityLog_validate this = validate_entity_type (entity_type this) @ validate_action (action this)"

text \<open>\<^verbatim>\<open>ActivityLogSchema.pre('save')\<close>.\<close>

definition ActivityLog_pre_save :: "activity_log \<Rightarrow> activity_log" where
  "ActivityLog_pre_save this =
     (let this1 = (if truthy (old_data this)
                   then this\<lparr>old_data := sanitizeData (old_data this)\<rparr> else this)
      in (if truthy (new_data this1)
          then this1\<lparr>new_data := sanitizeData (new_data this1)\<rparr> else this1))"

text \<open>The schema default \<^verbatim>\<open>default: null\<close> of the two snapshot paths.\<close>

definition default_null :: "jsval \<Rightarrow> jsval" where
  "default_null v = (if v = JUndefined then JNull else v)"

section \<open>Notification templates: \<^verbatim>\<open>NotificationType\<close>\<close>

record notification_type =
  type_id :: oid
  key :: string
  description :: "string option"
  template :: string

section \<open>Notifications: \<^verbatim>\<open>Notification\<close>\<close>

text \<open>
  Optional paths are options; \<open>read_at = None\<close> is the absent (\<^verbatim>\<open>undefined\<close>) date.
  The paths \<^verbatim>\<open>_id\<close>, \<^verbatim>\<open>entity_id\<close>, \<^verbatim>\<open>entity_type\<close>, \<^verbatim>\<open>type\<close> and \<^verbatim>\<open>created_at\<close> carry a prefix
  here, the names being taken.
\<close>

record notification =
  nid :: oid
  user_id :: oid
  triggered_by :: "oid option"
  notification_type_id :: oid
  n_entity_id :: "oid option"
  n_entity_type :: "string option"
  n_type :: string
  title :: string
  is_read :: bool
  read_at :: "int option"
  n_created_at :: int

text \<open>The three collections of the store.\<close>

record db =
  activity_logs :: "activity_log list"
  notification_types :: "notification_type list"
  notifications :: "notification list"

subsection \<open>Creating an audit record: \<^verbatim>\<open>ActivityLogSchema.statics.createLog\<close>\<close>

text \<open>
  \<^verbatim>\<open>Model.create\<close> builds the document, validates it, runs the pre-save middleware and
  only then inserts; a validation failure rejects before any middleware or write.
  \<open>new_id\<close> is the generated \<^verbatim>\<open>_id\<close> and \<open>now\<close> the clock behind the creation timestamp.

  The caller gets the document as the middleware left it.  What the insert writes for a
  snapshot is what the object-document mapper and the driver make of that value: with
  the options of this schema (\<^verbatim>\<open>minimize\<close> is left at its default) an object without
  properties is not written, for one.  That step is no code of the repository; it is
  the parameter \<open>serialize\<close>.
\<close>

definition ActivityLog_create ::
  "(jsval \<Rightarrow> jsval) \<Rightarrow> activity_log \<Rightarrow> db \<Rightarrow> (error + activity_log) \<times> db" where
  "ActivityLog_create serialize doc db =
     (case ActivityLog_validate doc of
        e # es \<Rightarrow> (Inl (ValidationError (e # es)), db)
      | [] \<Rightarrow>
          (let saved = ActivityLog_pre_save doc;
               stored = saved\<lparr>old_data := serialize (old_data saved),
                              new_data := serialize (new_data saved)\<rparr>
           in (Inr saved, db\<lparr>activity_logs := activity_logs db @ [stored]\<rparr>)))"

definition createLog ::
  "(jsval \<Rightarrow> jsval) \<Rightarrow> oid \<Rightarrow> int \<Rightarrow> oid \<Rightarrow> oid \<Rightarrow> string \<Rightarrow> string \<Rightarrow> jsval \<Rightarrow> jsval
    \<Rightarrow> db \<Rightarrow> (error + activity_log) \<times> db" where
  "createLog serialize new_id now changedBy entityId entityType action' oldData newData db =
     ActivityLog_create serialize
       \<lparr>log_id = new_id, changed_by = changedBy, entity_id = entityId,
        entity_type = entityType, action = action',
        old_data = default_null oldData, new_data = default_null newData,
        created_at = now\<rparr> db"

subsection \<open>Retention of audit records: the TTL index on \<^verbatim>\<open>created_at\<close>\<close>

text \<open>
  \<^verbatim>\<open>ActivityLogSchema.index({ created_at: 1 }, { expireAfterSeconds: 63072000 })\<close>.
  The store's expiry pass at time \<open>now\<close> deletes the documents whose indexed date plus
  the index's number of seconds has passed.
\<close>

definition ActivityLog_expireAfterSeconds :: nat where
  "ActivityLog_expireAfterSeconds = 63072000"

definition ttl_expired :: "nat \<Rightarrow> int \<Rightarrow> int \<Rightarrow> bool" where
  "ttl_expired expireAfterSeconds date now = (date + int expireAfterSeconds * 1000 \<le> now)"

definition activity_logs_ttl_pass :: "int \<Rightarrow> db \<Rightarrow> db" where
  "activity_logs_ttl_pass now db =
     db\<lparr>activity_logs :=
          filter (\<lambda>r. \<not> ttl_expired ActivityLog_expireAfterSeconds (created_at r) now)
            (activity_logs db)\<rparr>"

subsection \<open>Strings: the schema setters \<^verbatim>\<open>trim\<close> and \<^verbatim>\<open>lowercase\<close>\<close>

text \<open>
  A string is the list of its UTF-16 code units, and a \<open>char\<close> stands for the code unit
  of the same number: the strings of the model are the strings over U+0000 to U+00FF, and
  \<open>length\<close> is the \<^verbatim>\<open>length\<close> of JavaScript.  On that range the white space of
  \<^verbatim>\<open>String.prototype.trim\<close> and of the class \<^verbatim>\<open>\s\<close> is tab, line feed, vertical tab, form
  feed, carriage return, space and the no-break space U+00A0; \<^verbatim>\<open>toLowerCase\<close> maps the
  letters A to Z and the letters U+00C0 to U+00DE (the multiplication sign U+00D7 apart)
  to the code unit 32 above and leaves every other code unit.
\<close>

definition is_space :: "char \<Rightarrow> bool" where
  "is_space c =
     (c \<in> set [CHR 0x09, CHR 0x0A, CHR 0x0B, CHR 0x0C, CHR 0x0D, CHR 0x20, CHR 0xA0])"

definition trim :: "string \<Rightarrow> string" where
  "trim s = rev (dropWhile is_space (rev (dropWhile is_space s)))"

definition upper_case_letters :: "char list" where
  "upper_case_letters =
     ''ABCDEFGHIJKLMNOPQRSTUVWXYZ'' @
     [CHR 0xC0, CHR 0xC1, CHR 0xC2, CHR 0xC3, CHR 0xC4, CHR 0xC5, CHR 0xC6, CHR 0xC7,
      CHR 0xC8, CHR 0xC9, CHR 0xCA, CHR 0xCB, CHR 0xCC, CHR 0xCD, CHR 0xCE, CHR 0xCF,
      CHR 0xD0, CHR 0xD1, CHR 0xD2, CHR 0xD3, CHR 0xD4, CHR 0xD5, CHR 0xD6, CHR 0xD8,
      CHR 0xD9, CHR 0xDA, CHR 0xDB, CHR 0xDC, CHR 0xDD, CHR 0xDE]"

definition lower_case_letters :: "char list" where
  "lower_case_letters =
     ''abcdefghijklmnopqrstuvwxyz'' @
     [CHR 0xE0, CHR 0xE1, CHR 0xE2, CHR 0xE3, CHR 0xE4, CHR 0xE5, CHR 0xE6, CHR 0xE7,
      CHR 0xE8, CHR 0xE9, CHR 0xEA, CHR 0xEB, CHR 0xEC, CHR 0xED, CHR 0xEE, CHR 0xEF,
      CHR 0xF0, CHR 0xF1, CHR 0xF2, CHR 0xF3, CHR 0xF4, CHR 0xF5, CHR 0xF6, CHR 0xF8,
      CHR 0xF9, CHR 0xFA, CHR 0xFB, CHR 0xFC, CHR 0xFD, CHR 0xFE]"

definition toLowerCase_char :: "char \<Rightarrow> char" where
  "toLowerCase_char c =
     (case map_of (zip upper_case_letters lower_case_letters) c of
        None \<Rightarrow> c
      | Some l \<Rightarrow> l)"

definition toLowerCase :: "string \<Rightarrow> string" where
  "toLowerCase s = map toLowerCase_char s"

subsection \<open>Looking a template up by key\<close>

text \<open>
  \<^verbatim>\<open>NotificationType.findOne({ key: notificationTypeKey })\<close>: the first stored template
  whose key equals the query value, once the query value has gone through the setters of
  the \<^verbatim>\<open>key\<close> path (\<^verbatim>\<open>trim\<close>, \<^verbatim>\<open>lowercase\<close>) as query casting does.
\<close>

definition NotificationType_findOne_key :: "string \<Rightarrow> db \<Rightarrow> notification_type option" where
  "NotificationType_findOne_key k db =
     find (\<lambda>t. key t = toLowerCase (trim k)) (notification_types db)"

subsection \<open>Validation and middleware of \<^verbatim>\<open>Notification\<close>\<close>

definition notification_entity_type_values :: "string list" where
  "notification_entity_type_values =
     [''projects'', ''tasks'', ''goals'', ''leads'', ''customers'',
      ''files'', ''upsells'', ''messages'', ''users'']"

definition type_values :: "string list" where
  "type_values = [''info'', ''warning'', ''success'', ''error'']"

definition validate_n_entity_type :: "string option \<Rightarrow> (string \<times> string) list" where
  "validate_n_entity_type v =
     (case v of
        None \<Rightarrow> []
      | Some e \<Rightarrow>
          if e \<notin> set notification_entity_type_values
          then [(''entity_type'', ''Entity type must be a valid collection name'')] else [])"

definition validate_type :: "string \<Rightarrow> (string \<times> string) list" where
  "validate_type v =
     (if v \<notin> set type_values
      then [(''type'', ''Type must be one of: info, warning, success, error'')] else [])"

definition validate_title :: "string \<Rightarrow> (string \<times> string) list" where
  "validate_title v =
     (if v = [] then [(''title'', ''Notification title is required'')]
      else if 200 < length v then [(''title'', ''Title cannot exceed 200 characters'')]
      else [])"

text \<open>
  The custom validator of \<^verbatim>\<open>read_at\<close>, \<^verbatim>\<open>this.is_read ? v != null : v == null\<close>.  Like every
  validator but the required one it is not run on an absent value.
\<close>

definition validate_read_at :: "notification \<Rightarrow> (string \<times> string) list" where
  "validate_read_at this =
     (case read_at this of
        None \<Rightarrow> []
      | Some v \<Rightarrow>
          if is_read this then []
          else [(''read_at'', ''Read date should be set only when notification is read'')])"

definition Notification_validate :: "notification \<Rightarrow> (string \<times> string) list" where
  "Notification_validate this =
     validate_n_entity_type (n_entity_type this) @ validate_type (n_type this)
       @ validate_title (title this) @ validate_read_at this"

text \<open>
  \<^verbatim>\<open>NotificationSchema.pre('save')\<close>; \<open>is_read_modified\<close> is \<^verbatim>\<open>this.isModified('is_read')\<close>
  and \<open>now\<close> the clock read by \<^verbatim>\<open>new Date()\<close>.
\<close>

definition Notification_pre_save :: "bool \<Rightarrow> int \<Rightarrow> notification \<Rightarrow> notification" where
  "Notification_pre_save is_read_modified now this =
     (if is_read_modified then
        (if is_read this \<and> read_at this = None then this\<lparr>read_at := Some now\<rparr>
         else if \<not> is_read this then this\<lparr>read_at := None\<rparr>
         else this)
      else this)"

subsection \<open>Dispatch: \<^verbatim>\<open>NotificationSchema.statics.createNotification\<close>\<close>

text \<open>
  \<^verbatim>\<open>Model.create\<close> for a notification: the string setters, validation, the pre-save
  middleware (a path filled by its default does not count as modified), the insert.
\<close>

definition Notification_create :: "int \<Rightarrow> notification \<Rightarrow> db \<Rightarrow> (error + notification) \<times> db" where
  "Notification_create now doc db =
     (let this = doc\<lparr>title := trim (title doc),
                     n_entity_type := map_option trim (n_entity_type doc)\<rparr>
      in case Notification_validate this of
           e # es \<Rightarrow> (Inl (ValidationError (e # es)), db)
         | [] \<Rightarrow>
             (let saved = Notification_pre_save False now this
              in (Inr saved, db\<lparr>notifications := notifications db @ [saved]\<rparr>)))"

definition createNotification ::
  "oid \<Rightarrow> int \<Rightarrow> oid \<Rightarrow> string \<Rightarrow> string \<Rightarrow> string option \<Rightarrow> oid option \<Rightarrow> oid option
    \<Rightarrow> string option \<Rightarrow> db \<Rightarrow> (error + notification) \<times> db" where
  "createNotification new_id now userId notificationTypeKey title' type' triggeredBy entityId
       entityType db =
     (case NotificationType_findOne_key notificationTypeKey db of
        None \<Rightarrow>
          (Inl (Error (''Notification type '' @ [CHR 0x27] @ notificationTypeKey @ [CHR 0x27]
                        @ '' not found'')), db)
      | Some notificationType \<Rightarrow>
          Notification_create now
            \<lparr>nid = new_id, user_id = userId, triggered_by = triggeredBy,
             notification_type_id = type_id notificationType,
             n_entity_id = entityId, n_entity_type = entityType,
             n_type = (case type' of None \<Rightarrow> ''info'' | Some t \<Rightarrow> t),
             title = title', is_read = False, read_at = None,
             n_created_at = now\<rparr> db)"

subsection \<open>Read state: \<^verbatim>\<open>markAsRead\<close>, \<^verbatim>\<open>markAsUnread\<close>, \<^verbatim>\<open>markAllAsRead\<close>, \<^verbatim>\<open>getUnreadCount\<close>\<close>





text \<open>\<^verbatim>\<open>updateMany\<close> returns the number of documents it modified.\<close>

definition markAllAsRead :: "int \<Rightarrow> oid \<Rightarrow> db \<Rightarrow> nat \<times> db" where
  "markAllAsRead now userId db =
     (length (filter (\<lambda>n. user_id n = userId \<and> is_read n = False) (notifications db)),
      db\<lparr>notifications :=
           map (\<lambda>n. if user_id n = userId \<and> is_read n = False
                     then n\<lparr>is_read := True, read_at := Some now\<rparr> else n)
             (notifications db)\<rparr>)"

definition getUnreadCount :: "oid \<Rightarrow> db \<Rightarrow> nat" where
  "getUnreadCount userId db =
     length (filter (\<lambda>n. user_id n = userId \<and> is_read n = False) (notifications db))"

subsection \<open>Cleanup: \<^verbatim>\<open>cleanupOldNotifications\<close> and the TTL index on \<^verbatim>\<open>read_at\<close>\<close>






section \<open>Rendering: \<^verbatim>\<open>NotificationTypeSchema.methods.renderTemplate\<close>\<close>

subsection \<open>The replacement \<^verbatim>\<open>variables[key] || ''\<close>\<close>

text \<open>
  The value handed to \<^verbatim>\<open>replace\<close>: the value of the key when it is truthy, the empty
  string otherwise.  \<^verbatim>\<open>replace\<close> turns a replacement that is no string into one before it
  looks for a match; how the runtime prints numbers, arrays and objects, and when that
  fails, is the parameter \<open>toString\<close>.
\<close>

definition replaceValue :: "(string \<times> jsval) list \<Rightarrow> string \<Rightarrow> jsval" where
  "replaceValue variables k =
     (let v = prop_get variables k in if truthy v then v else JStr [])"

definition replacement_of :: "(jsval \<Rightarrow> error + string) \<Rightarrow> jsval \<Rightarrow> error + string" where
  "replacement_of toString v = (case v of JStr s \<Rightarrow> Inr s | _ \<Rightarrow> toString v)"

subsection \<open>The pattern \<^verbatim>\<open>{{\s*key\s*}}\<close> for a key that is plain text\<close>

text \<open>
  The key is spliced into the source of a regular expression.  When none of its
  characters is a syntax character of regular expressions or white space, the pattern
  is: two opening braces, any white space, the key itself, any white space, two closing
  braces.  Matching it at the start of a string needs no backtracking.
\<close>

definition regex_syntax_chars :: "char list" where
  "regex_syntax_chars =
     [CHR ''^'', CHR ''$'', CHR 0x5C, CHR ''.'', CHR ''*'', CHR ''+'', CHR ''?'',
      CHR ''('', CHR '')'', CHR ''['', CHR '']'', CHR ''{'', CHR ''}'', CHR ''|'']"

definition plain_key :: "string \<Rightarrow> bool" where
  "plain_key k = list_all (\<lambda>c. c \<notin> set regex_syntax_chars \<and> \<not> is_space c) k"

text \<open>The length of the match of the pattern at the start of \<open>s\<close>, if there is one.\<close>

definition match_here :: "string \<Rightarrow> string \<Rightarrow> nat option" where
  "match_here k s =
     (if take 2 s = ''{{'' then
        (let s1 = drop 2 s;
             ws1 = takeWhile is_space s1;
             s2 = dropWhile is_space s1
         in if take (length k) s2 = k then
              (let s3 = drop (length k) s2;
                   ws2 = takeWhile is_space s3;
                   s4 = dropWhile is_space s3
               in if take 2 s4 = ''}}''
                  then Some (2 + length ws1 + length k + length ws2 + 2)
                  else None)
            else None)
      else None)"

text \<open>
  The replacement text of one match: \<^verbatim>\<open>$$\<close> is a dollar sign, \<^verbatim>\<open>$&\<close> the matched text,
  \<^verbatim>\<open>$`\<close> the subject up to the match and \<^verbatim>\<open>$'\<close> the subject beyond it; the pattern has
  no capture group, so every other character stands for itself.
\<close>

fun expand :: "string \<Rightarrow> string \<Rightarrow> string \<Rightarrow> string \<Rightarrow> string" where
  "expand [] matched preceding following = []"
| "expand [c] matched preceding following = [c]"
| "expand (c # d # r) matched preceding following =
     (if c = CHR ''$'' then
        (if d = CHR ''$'' then CHR ''$'' # expand r matched preceding following
         else if d = CHR ''&'' then matched @ expand r matched preceding following
         else if d = CHR 0x60 then preceding @ expand r matched preceding following
         else if d = CHR 0x27 then following @ expand r matched preceding following
         else c # expand (d # r) matched preceding following)
      else c # expand (d # r) matched preceding following)"

text \<open>
  \<^verbatim>\<open>subject.replace(placeholder, replacement)\<close> with the global flag: the matches are
  found from left to right, each search resuming where the previous match ended;
  \<open>preceding\<close> is the part of the subject already passed.
\<close>

fun replace_all :: "string \<Rightarrow> string \<Rightarrow> string \<Rightarrow> string \<Rightarrow> string" where
  "replace_all k replacement preceding [] = []"
| "replace_all k replacement preceding (c # cs) =
     (case match_here k (c # cs) of
        None \<Rightarrow> c # replace_all k replacement (preceding @ [c]) cs
      | Some n \<Rightarrow>
          expand replacement (take n (c # cs)) preceding (drop (n - 1) cs)
            @ replace_all k replacement (preceding @ take n (c # cs)) (drop (n - 1) cs))"

subsection \<open>The method\<close>

text \<open>
  A key with an opening parenthesis and no closing one, no backslash and no opening
  bracket opens a group that the pattern never closes: \<^verbatim>\<open>new RegExp\<close> throws a syntax
  error, before \<^verbatim>\<open>replace\<close> is reached.
\<close>

definition unclosed_group :: "string \<Rightarrow> bool" where
  "unclosed_group k =
     (CHR ''('' \<in> set k \<and> CHR '')'' \<notin> set k \<and> CHR 0x5C \<notin> set k \<and> CHR ''['' \<notin> set k)"

text \<open>
  \<open>variables\<close> lists the own properties of the argument in the order of \<^verbatim>\<open>Object.keys\<close>.
  The body of the loop, for one key: a plain key gives a well-formed pattern, and the
  replacement is made as above; a key with an unclosed group fails; for every other key
  the pattern is whatever the regular-expression engine makes of it, and that engine is
  the parameter \<open>engine\<close>, applied to the key, the value handed to \<^verbatim>\<open>replace\<close> and the
  subject.  An exception ends the loop.
\<close>

type_synonym regexp_engine = "string \<Rightarrow> jsval \<Rightarrow> string \<Rightarrow> error + string"

definition render_key ::
  "regexp_engine \<Rightarrow> (jsval \<Rightarrow> error + string) \<Rightarrow> (string \<times> jsval) list \<Rightarrow> string \<Rightarrow> string
    \<Rightarrow> error + string" where
  "render_key engine toString variables k rendered =
     (if plain_key k then
        (case replacement_of toString (replaceValue variables k) of
           Inl e \<Rightarrow> Inl e
         | Inr replacement \<Rightarrow> Inr (replace_all k replacement [] rendered))
      else if unclosed_group k then Inl SyntaxError
      else engine k (replaceValue variables k) rendered)"

fun render_keys ::
  "regexp_engine \<Rightarrow> (jsval \<Rightarrow> error + string) \<Rightarrow> (string \<times> jsval) list \<Rightarrow> string list
    \<Rightarrow> string \<Rightarrow> error + string" where
  "render_keys engine toString variables [] rendered = Inr rendered"
| "render_keys engine toString variables (k # ks) rendered =
     (case render_key engine toString variables k rendered of
        Inl e \<Rightarrow> Inl e
      | Inr rendered' \<Rightarrow> render_keys engine toString variables ks rendered')"

definition renderTemplate ::
  "regexp_engine \<Rightarrow> (jsval \<Rightarrow> error + string) \<Rightarrow> notification_type
    \<Rightarrow> (string \<times> jsval) list \<Rightarrow> error + string" where
  "renderTemplate engine toString this variables =
     render_keys engine toString variables (map fst variables) (template this)"

section \<open>The operations of the notification core as a sequence\<close>






section \<open>Templates as literal text and placeholders\<close>

text \<open>
  To state what rendering does, a template is read as a sequence of segments: literal
  text, and placeholders written \<^verbatim>\<open>{{name}}\<close>, with any white space between the braces
  and the name.
\<close>

datatype segment = Lit string | Hole string string string

fun segment_text :: "segment \<Rightarrow> string" where
  "segment_text (Lit s) = s"
| "segment_text (Hole w1 n w2) = ''{{'' @ w1 @ n @ w2 @ ''}}''"

definition template_text :: "segment list \<Rightarrow> string" where
  "template_text segs = concat (map segment_text segs)"

text \<open>
  A text is safe for braces when it has no two opening braces in a row and does not end
  with one: put next to any other text it starts no placeholder.  It is safe as a
  replacement when, besides, it has none of the patterns \<^verbatim>\<open>$$\<close>, \<^verbatim>\<open>$&\<close>, \<^verbatim>\<open>$`\<close>, \<^verbatim>\<open>$'\<close>.
\<close>

fun brace_safe :: "string \<Rightarrow> bool" where
  "brace_safe [] = True"
| "brace_safe [c] = (c \<noteq> CHR ''{'')"
| "brace_safe (c # d # r) = (\<not> (c = CHR ''{'' \<and> d = CHR ''{'') \<and> brace_safe (d # r))"

fun dollar_safe :: "string \<Rightarrow> bool" where
  "dollar_safe [] = True"
| "dollar_safe [c] = True"
| "dollar_safe (c # d # r) =
     (\<not> (c = CHR ''$'' \<and> d \<in> set [CHR ''$'', CHR ''&'', CHR 0x60, CHR 0x27])
      \<and> dollar_safe (d # r))"

definition plain_text :: "string \<Rightarrow> bool" where
  "plain_text s = (brace_safe s \<and> dollar_safe s)"

fun plain_segment :: "segment \<Rightarrow> bool" where
  "plain_segment (Lit s) = brace_safe s"
| "plain_segment (Hole w1 n w2) = (list_all is_space w1 \<and> plain_key n \<and> list_all is_space w2)"

text \<open>
  Whether the value of a key has a text, that is, is a string, is falsy, or is turned
  into a string by the runtime; and that text.
\<close>

definition has_text :: "(jsval \<Rightarrow> error + string) \<Rightarrow> (string \<times> jsval) list \<Rightarrow> string \<Rightarrow> bool" where
  "has_text toString variables k =
     (case replacement_of toString (replaceValue variables k) of
        Inr r \<Rightarrow> True
      | Inl e \<Rightarrow> False)"

definition text_of :: "(jsval \<Rightarrow> error + string) \<Rightarrow> (string \<times> jsval) list \<Rightarrow> string \<Rightarrow> string" where
  "text_of toString variables k =
     (case replacement_of toString (replaceValue variables k) of
        Inr r \<Rightarrow> r
      | Inl e \<Rightarrow> [])"

text \<open>
  The text a segment is expected to become: a placeholder whose name is a key of
  \<open>variables\<close> becomes the text of that key's value, every other segment stays.
\<close>

fun fill :: "(jsval \<Rightarrow> error + string) \<Rightarrow> (string \<times> jsval) list \<Rightarrow> segment \<Rightarrow> string" where
  "fill toString variables (Lit s) = s"
| "fill toString variables (Hole w1 n w2) =
     (if n \<in> set (map fst variables) then text_of toString variables n
      else ''{{'' @ w1 @ n @ w2 @ ''}}'')"

text \<open>The same, for one key with its replacement, and for a list of keys.\<close>

fun fill_one :: "string \<Rightarrow> string \<Rightarrow> segment \<Rightarrow> segment" where
  "fill_one k r (Lit s) = Lit s"
| "fill_one k r (Hole w1 n w2) = (if n = k then Lit r else Hole w1 n w2)"

fun fill_keys ::
  "(jsval \<Rightarrow> error + string) \<Rightarrow> (string \<times> jsval) list \<Rightarrow> string list \<Rightarrow> segment \<Rightarrow> segment" where
  "fill_keys toString variables ks (Lit s) = Lit s"
| "fill_keys toString variables ks (Hole w1 n w2) =
     (if n \<in> set ks then Lit (text_of toString variables n) else Hole w1 n w2)"

text \<open>
  A runtime that supports nothing beyond the model: its engine rejects every pattern and
  its conversion to a string every value.  The examples below never reach either.
\<close>

definition rejecting_engine :: regexp_engine where
  "rejecting_engine k v subject = Inl (Error ''unsupported pattern'')"

definition rejecting_toString :: "jsval \<Rightarrow> error + string" where
  "rejecting_toString v = Inl (Error ''unsupported value'')"


section \<open>Properties of the redaction policy\<close>

text \<open>
  C3.  The code at a snapshot whose card number is a non-empty string, whose card
  verification value is the number 0 and whose password is the empty string: the card
  number is replaced by the marker, the two falsy values are returned as they are.
\<close>

theorem sanitizeData_falsy_values:
  "sanitizeData
     (JObj [(''card_number'', JStr ''4111111111111111''), (''cvv'', JNum 0),
            (''password'', JStr ''''), (''name'', JStr ''Bob'')])
   = JObj [(''card_number'', JStr ''***REDACTED***''), (''cvv'', JNum 0),
           (''password'', JStr ''''), (''name'', JStr ''Bob'')]"
  by (simp add: sanitizeData_def sensitiveFields_def redact_field_def prop_get_def prop_set_def
      REDACTED_def)

text \<open>
  Read off the result: the card verification value and the password are present and are
  not the marker.
\<close>

theorem sanitizeData_falsy_values_witness:
  "prop_get (spread (sanitizeData
     (JObj [(''card_number'', JStr ''4111111111111111''), (''cvv'', JNum 0),
            (''password'', JStr ''''), (''name'', JStr ''Bob'')]))) ''cvv'' = JNum 0 \<and>
   prop_get (spread (sanitizeData
     (JObj [(''card_number'', JStr ''4111111111111111''), (''cvv'', JNum 0),
            (''password'', JStr ''''), (''name'', JStr ''Bob'')]))) ''password'' = JStr '''' \<and>
   JNum 0 \<noteq> REDACTED \<and> JStr '''' \<noteq> REDACTED"
  using sanitizeData_falsy_values by (simp add: prop_get_def REDACTED_def)

section \<open>Properties of the audit recorder\<close>

lemmas createLog_eval = createLog_def ActivityLog_create_def ActivityLog_validate_def
  validate_entity_type_def validate_action_def entity_type_values_def action_values_def
  ActivityLog_pre_save_def sanitizeData_def redact_field_def prop_get_def prop_set_def
  sensitiveFields_def REDACTED_def default_null_def Let_def

text \<open>
  C1.  The code at the update of a customer's charge details whose card verification
  value is the number 0: the call succeeds, the card number is redacted in both
  snapshots, and the value 0 is in the record returned and in the snapshots handed to
  the store.
\<close>

theorem createLog_falsy_values:
  "createLog serialize 1 1000 7 8 ''customer_charge_details'' ''update''
      (JObj [(''card_number'', JStr ''4111111111111111''), (''cvv'', JNum 0)])
      (JObj [(''card_number'', JStr ''4000000000000002''), (''cvv'', JNum 0)])
      \<lparr>activity_logs = [], notification_types = [], notifications = []\<rparr>
    = (Inr \<lparr>log_id = 1, changed_by = 7, entity_id = 8,
            entity_type = ''customer_charge_details'', action = ''update'',
            old_data = JObj [(''card_number'', JStr ''***REDACTED***''), (''cvv'', JNum 0)],
            new_data = JObj [(''card_number'', JStr ''***REDACTED***''), (''cvv'', JNum 0)],
            created_at = 1000\<rparr>,
       \<lparr>activity_logs =
          [\<lparr>log_id = 1, changed_by = 7, entity_id = 8,
            entity_type = ''customer_charge_details'', action = ''update'',
            old_data = serialize
              (JObj [(''card_number'', JStr ''***REDACTED***''), (''cvv'', JNum 0)]),
            new_data = serialize
              (JObj [(''card_number'', JStr ''***REDACTED***''), (''cvv'', JNum 0)]),
            created_at = 1000\<rparr>],
        notification_types = [], notifications = []\<rparr>)"
  by (simp add: createLog_eval)

text \<open>
  C5.  \<^verbatim>\<open>createLog\<close> with an entity type outside the enumerated collection names fails
  with a validation error on the path \<^verbatim>\<open>entity_type\<close> (the enum message, or the required
  message for the empty string) and leaves the store as it was.
\<close>

theorem createLog_invalid_entity_type:
  assumes "entityType \<notin> set entity_type_values"
  shows "\<exists>errs. createLog serialize new_id now changedBy entityId entityType action' oldData
                    newData db
                  = (Inl (ValidationError errs), db) \<and>
                (''entity_type'',
                 if entityType = [] then ''Entity type is required''
                 else ''Entity type must be a valid collection name'') \<in> set errs"
  using assms
  by (auto simp: createLog_def ActivityLog_create_def ActivityLog_validate_def
      validate_entity_type_def split: list.splits)

text \<open>The entity type \<^verbatim>\<open>invoices\<close> is rejected and nothing is stored.\<close>

theorem createLog_invalid_entity_type_witness:
  "''invoices'' \<notin> set entity_type_values \<and>
   (\<exists>errs. createLog id 1 1000 7 8 ''invoices'' ''update'' JUndefined JUndefined
             \<lparr>activity_logs = [], notification_types = [], notifications = []\<rparr>
            = (Inl (ValidationError errs),
               \<lparr>activity_logs = [], notification_types = [], notifications = []\<rparr>) \<and>
           (''entity_type'', ''Entity type must be a valid collection name'') \<in> set errs)"
proof -
  have h: "''invoices'' \<notin> set entity_type_values" by (simp add: entity_type_values_def)
  from createLog_invalid_entity_type [OF h, of id 1 1000 7 8 "''update''" JUndefined JUndefined
      "\<lparr>activity_logs = [], notification_types = [], notifications = []\<rparr>"] h
  show ?thesis by simp
qed

section \<open>Properties of the retention rule\<close>

text \<open>
  C10.  The expiry rule of the audit log is keyed on \<^verbatim>\<open>created_at\<close> with a horizon of
  2 years of 365 days.  An expiry pass keeps every record younger than the horizon,
  removes every record older than it (so a record is removed by every pass that runs
  late enough), and adds nothing.
\<close>

theorem activity_log_retention:
  assumes "r \<in> set (activity_logs db)"
  shows "ActivityLog_expireAfterSeconds = 2 * 365 * 24 * 60 * 60 \<and>
         (now - created_at r < 2 * 365 * 24 * 60 * 60 * 1000 \<longrightarrow>
            r \<in> set (activity_logs (activity_logs_ttl_pass now db))) \<and>
         (2 * 365 * 24 * 60 * 60 * 1000 < now - created_at r \<longrightarrow>
            r \<notin> set (activity_logs (activity_logs_ttl_pass now db))) \<and>
         set (activity_logs (activity_logs_ttl_pass now db)) \<subseteq> set (activity_logs db)"
  using assms
  by (auto simp: activity_logs_ttl_pass_def ttl_expired_def ActivityLog_expireAfterSeconds_def)

text \<open>A record created at time 0, one millisecond short of the horizon and one past it.\<close>

theorem activity_log_retention_witness:
  "\<lparr>log_id = 1, changed_by = 7, entity_id = 8, entity_type = ''users'', action = ''view'',
     old_data = JNull, new_data = JNull, created_at = 0\<rparr>
     \<in> set (activity_logs
              (activity_logs_ttl_pass 63071999999
                 \<lparr>activity_logs =
                    [\<lparr>log_id = 1, changed_by = 7, entity_id = 8, entity_type = ''users'',
                      action = ''view'', old_data = JNull, new_data = JNull, created_at = 0\<rparr>],
                  notification_types = [], notifications = []\<rparr>)) \<and>
   \<lparr>log_id = 1, changed_by = 7, entity_id = 8, entity_type = ''users'', action = ''view'',
     old_data = JNull, new_data = JNull, created_at = 0\<rparr>
     \<notin> set (activity_logs
              (activity_logs_ttl_pass 63072000001
                 \<lparr>activity_logs =
                    [\<lparr>log_id = 1, changed_by = 7, entity_id = 8, entity_type = ''users'',
                      action = ''view'', old_data = JNull, new_data = JNull, created_at = 0\<rparr>],
                  notification_types = [], notifications = []\<rparr>))"
proof -
  let ?r = "\<lparr>log_id = 1, changed_by = 7, entity_id = 8, entity_type = ''users'',
              action = ''view'', old_data = JNull, new_data = JNull, created_at = 0\<rparr>"
  let ?db = "\<lparr>activity_logs = [?r], notification_types = [], notifications = []\<rparr>"
  have h: "?r \<in> set (activity_logs ?db)" by simp
  from activity_log_retention [OF h, of 63071999999] activity_log_retention [OF h, of 63072000001]
  show ?thesis by simp
qed

section \<open>Properties of dispatch\<close>

text \<open>
  C4.  \<^verbatim>\<open>createNotification\<close> with a key that matches no stored template (the query value
  is trimmed and lowercased by the setters of the \<^verbatim>\<open>key\<close> path before it is compared)
  fails with the error \<^verbatim>\<open>Notification type '...' not found\<close> and returns the store
  unchanged: no notification is created.
\<close>

theorem createNotification_unknown_template:
  assumes "\<forall>t \<in> set (notification_types db). key t \<noteq> toLowerCase (trim notificationTypeKey)"
  shows "createNotification new_id now userId notificationTypeKey title' type' triggeredBy
            entityId entityType db
         = (Inl (Error (''Notification type '' @ [CHR 0x27] @ notificationTypeKey @ [CHR 0x27]
                          @ '' not found'')), db)"
proof -
  from assms have "NotificationType_findOne_key notificationTypeKey db = None"
    by (simp add: NotificationType_findOne_key_def find_None_iff)
  then show ?thesis by (simp add: createNotification_def)
qed

lemmas string_eval = trim_def toLowerCase_def toLowerCase_char_def is_space_def
  upper_case_letters_def lower_case_letters_def

lemmas createNotification_eval = createNotification_def NotificationType_findOne_key_def
  Notification_create_def Notification_validate_def validate_n_entity_type_def
  validate_type_def validate_title_def validate_read_at_def type_values_def
  notification_entity_type_values_def Notification_pre_save_def string_eval Let_def


text \<open>A store that holds one template, asked for another key.\<close>

theorem createNotification_unknown_template_witness:
  "createNotification 1 1000 7 ''task_deleted'' ''Hello'' None None None None
        \<lparr>activity_logs = [],
         notification_types = [\<lparr>type_id = 5, key = ''task_assigned'', description = None,
                                 template = ''Task {{task_title}}''\<rparr>],
         notifications = []\<rparr>
     = (Inl (Error (''Notification type '' @ [CHR 0x27] @ ''task_deleted'' @ [CHR 0x27]
                          @ '' not found'')),
        \<lparr>activity_logs = [],
         notification_types = [\<lparr>type_id = 5, key = ''task_assigned'', description = None,
                                 template = ''Task {{task_title}}''\<rparr>],
         notifications = []\<rparr>)"
proof -
  let ?db = "\<lparr>activity_logs = [],
         notification_types = [\<lparr>type_id = 5, key = ''task_assigned'', description = None,
                                 template = ''Task {{task_title}}''\<rparr>],
         notifications = []\<rparr>"
  have h: "\<forall>t \<in> set (notification_types ?db). key t \<noteq> toLowerCase (trim ''task_deleted'')"
    by (simp add: string_eval)
  show ?thesis
    by (rule createNotification_unknown_template [OF h, of 1 1000 7 "''Hello''" None None None None])
qed

section \<open>Properties of the read state\<close>


lemma Notification_pre_save_unmodified [simp]: "Notification_pre_save False now this = this"
  by (simp add: Notification_pre_save_def)

lemma Notification_pre_save_read [simp]:
  "Notification_pre_save m now (this\<lparr>is_read := True, read_at := Some t\<rparr>)
     = this\<lparr>is_read := True, read_at := Some t\<rparr>"
  by (simp add: Notification_pre_save_def)

lemma Notification_pre_save_unread [simp]:
  "Notification_pre_save m now (this\<lparr>is_read := False, read_at := None\<rparr>)
     = this\<lparr>is_read := False, read_at := None\<rparr>"
  by (simp add: Notification_pre_save_def)



















section \<open>Properties of cleanup\<close>



section \<open>Properties of marking all read\<close>

lemma getUnreadCount_markAllAsRead: "getUnreadCount u (snd (markAllAsRead now u db)) = 0"
  by (simp add: getUnreadCount_def markAllAsRead_def filter_map o_def)

lemma getUnreadCount_append:
  "getUnreadCount u (db\<lparr>notifications := notifications db @ [n]\<rparr>)
     = getUnreadCount u db + (if user_id n = u \<and> is_read n = False then 1 else 0)"
  by (simp add: getUnreadCount_def)

lemma createNotification_Inr:
  assumes "createNotification new_id now u k title' type' triggeredBy entityId entityType db = (Inr n, db')"
  shows "db' = db\<lparr>notifications := notifications db @ [n]\<rparr> \<and> user_id n = u \<and> is_read n = False
         \<and> read_at n = None \<and> nid n = new_id"
  using assms
  by (auto simp: createNotification_def Notification_create_def Let_def
      split: option.splits list.splits)

lemma other_users_untouched:
  "v \<noteq> u \<Longrightarrow>
   filter (\<lambda>n. user_id n = v)
     (map (\<lambda>n. if user_id n = u \<and> is_read n = False
               then n\<lparr>is_read := True, read_at := Some now\<rparr> else n) ms)
     = filter (\<lambda>n. user_id n = v) ms"
  by (induction ms) auto

text \<open>
  C9.  After \<^verbatim>\<open>markAllAsRead\<close> for a user the unread count of that user is 0; the call
  reports as many modified documents as were unread; every notification of the user is
  read, with \<^verbatim>\<open>read_at\<close> the time of the call where it was unread before; the notifications
  of every other user are as before; and a notification dispatched to the user afterwards
  makes the unread count 1.
\<close>

theorem markAllAsRead_spec:
  "getUnreadCount u (snd (markAllAsRead now u db)) = 0 \<and>
   fst (markAllAsRead now u db) = getUnreadCount u db \<and>
   map (\<lambda>n. if user_id n = u then n\<lparr>is_read := True, read_at := (if is_read n then read_at n else Some now)\<rparr> else n) (notifications db)
     = notifications (snd (markAllAsRead now u db)) \<and>
   (\<forall>v. v \<noteq> u \<longrightarrow>
      filter (\<lambda>n. user_id n = v) (notifications (snd (markAllAsRead now u db)))
        = filter (\<lambda>n. user_id n = v) (notifications db)) \<and>
   (\<forall>new_id now' k title' type' triggeredBy entityId entityType n db'.
      createNotification new_id now' u k title' type' triggeredBy entityId entityType
          (snd (markAllAsRead now u db)) = (Inr n, db')
      \<longrightarrow> getUnreadCount u db' = 1)"
proof (intro conjI allI impI)
  show "getUnreadCount u (snd (markAllAsRead now u db)) = 0"
    by (rule getUnreadCount_markAllAsRead)
  show "fst (markAllAsRead now u db) = getUnreadCount u db"
    by (simp add: markAllAsRead_def getUnreadCount_def)
  show "map (\<lambda>n. if user_id n = u then n\<lparr>is_read := True, read_at := (if is_read n then read_at n else Some now)\<rparr> else n) (notifications db)
     = notifications (snd (markAllAsRead now u db))"
    by (simp add: markAllAsRead_def)
next
  fix v assume "v \<noteq> u"
  then show "filter (\<lambda>n. user_id n = v) (notifications (snd (markAllAsRead now u db)))
        = filter (\<lambda>n. user_id n = v) (notifications db)"
    using other_users_untouched [of v u now "notifications db"] by (simp add: markAllAsRead_def)
next
  fix new_id now' k title' type' triggeredBy entityId entityType n db'
  assume "createNotification new_id now' u k title' type' triggeredBy entityId entityType
          (snd (markAllAsRead now u db)) = (Inr n, db')"
  from createNotification_Inr [OF this] show "getUnreadCount u db' = 1"
    by (simp add: getUnreadCount_append getUnreadCount_markAllAsRead)
qed

text \<open>A user with two unread notifications, then a third one dispatched.\<close>

theorem markAllAsRead_spec_witness:
  "getUnreadCount 7 (snd (markAllAsRead 4000 7
      \<lparr>activity_logs = [],
        notification_types = [\<lparr>type_id = 5, key = ''task_assigned'', description = None,
                                template = ''Task {{task_title}}''\<rparr>],
        notifications =
          [\<lparr>nid = 1, user_id = 7, triggered_by = None, notification_type_id = 5,
             n_entity_id = None, n_entity_type = None, n_type = ''info'', title = ''First'',
             is_read = False, read_at = None, n_created_at = 1000\<rparr>,
           \<lparr>nid = 2, user_id = 7, triggered_by = None, notification_type_id = 5,
             n_entity_id = None, n_entity_type = None, n_type = ''info'', title = ''Second'',
             is_read = False, read_at = None, n_created_at = 2000\<rparr>]\<rparr>)) = 0 \<and>
   getUnreadCount 7 (snd (createNotification 3 5000 7 ''task_assigned'' ''Third'' None None None None
     (snd (markAllAsRead 4000 7
      \<lparr>activity_logs = [],
        notification_types = [\<lparr>type_id = 5, key = ''task_assigned'', description = None,
                                template = ''Task {{task_title}}''\<rparr>],
        notifications =
          [\<lparr>nid = 1, user_id = 7, triggered_by = None, notification_type_id = 5,
             n_entity_id = None, n_entity_type = None, n_type = ''info'', title = ''First'',
             is_read = False, read_at = None, n_created_at = 1000\<rparr>,
           \<lparr>nid = 2, user_id = 7, triggered_by = None, notification_type_id = 5,
             n_entity_id = None, n_entity_type = None, n_type = ''info'', title = ''Second'',
             is_read = False, read_at = None, n_created_at = 2000\<rparr>]\<rparr>)))) = 1"
proof -
  let ?db = "\<lparr>activity_logs = [],
        notification_types = [\<lparr>type_id = 5, key = ''task_assigned'', description = None,
                                template = ''Task {{task_title}}''\<rparr>],
        notifications =
          [\<lparr>nid = 1, user_id = 7, triggered_by = None, notification_type_id = 5,
             n_entity_id = None, n_entity_type = None, n_type = ''info'', title = ''First'',
             is_read = False, read_at = None, n_created_at = 1000\<rparr>,
           \<lparr>nid = 2, user_id = 7, triggered_by = None, notification_type_id = 5,
             n_entity_id = None, n_entity_type = None, n_type = ''info'', title = ''Second'',
             is_read = False, read_at = None, n_created_at = 2000\<rparr>]\<rparr>"
  let ?res = "createNotification 3 5000 7 ''task_assigned'' ''Third'' None None None None
                (snd (markAllAsRead 4000 7 ?db))"
  note T = markAllAsRead_spec [of 7 4000 ?db]
  have "fst ?res = Inr \<lparr>nid = 3, user_id = 7, triggered_by = None, notification_type_id = 5,
             n_entity_id = None, n_entity_type = None, n_type = ''info'', title = ''Third'',
             is_read = False, read_at = None, n_created_at = 5000\<rparr>"
    by (simp add: createNotification_eval markAllAsRead_def)
  then have run: "?res = (Inr \<lparr>nid = 3, user_id = 7, triggered_by = None, notification_type_id = 5,
             n_entity_id = None, n_entity_type = None, n_type = ''info'', title = ''Third'',
             is_read = False, read_at = None, n_created_at = 5000\<rparr>, snd ?res)"
    by (simp add: prod_eq_iff)
  from T [THEN conjunct2, THEN conjunct2, THEN conjunct2, THEN conjunct2, rule_format, OF run]
  have one: "getUnreadCount 7 (snd ?res) = 1" .
  from T [THEN conjunct1] one show ?thesis by (rule conjI)
qed

section \<open>Properties of rendering\<close>

lemma expand_dollar_safe: "dollar_safe r \<Longrightarrow> expand r m p f = r"
  by (induction r m p f rule: expand.induct) auto

lemma match_here_not_brace: "c \<noteq> CHR ''{'' \<Longrightarrow> match_here k (c # cs) = None"
  by (simp add: match_here_def)

lemma match_here_second_not_brace: "d \<noteq> CHR ''{'' \<Longrightarrow> match_here k (c # d # cs) = None"
  by (simp add: match_here_def)

lemma match_here_single: "match_here k [c] = None"
  by (simp add: match_here_def)

lemma replace_all_literal:
  "brace_safe s \<Longrightarrow> replace_all k r pre (s @ rest) = s @ replace_all k r (pre @ s) rest"
proof (induction s arbitrary: pre rule: brace_safe.induct)
  case 1
  show ?case by simp
next
  case (2 c)
  then have "match_here k (c # rest) = None" by (simp add: match_here_not_brace)
  then show ?case by simp
next
  case (3 c d r')
  then have "\<not> (c = CHR ''{'' \<and> d = CHR ''{'')" and safe: "brace_safe (d # r')" by simp_all
  then have "match_here k (c # d # r' @ rest) = None"
    by (cases "c = CHR ''{''") (simp_all add: match_here_not_brace match_here_second_not_brace)
  then show ?case using "3.IH" [OF safe, of "pre @ [c]"] by simp
qed

lemma no_brace_safe: "CHR ''{'' \<notin> set s \<Longrightarrow> brace_safe s"
  by (induction s rule: brace_safe.induct) auto

lemma plain_key_chars:
  "plain_key k \<Longrightarrow> c \<in> set k \<Longrightarrow> \<not> is_space c \<and> c \<noteq> CHR ''{'' \<and> c \<noteq> CHR ''}''"
  by (auto simp: plain_key_def list_all_iff regex_syntax_chars_def)

lemma not_space_brace: "\<not> is_space CHR ''}''"
  by (simp add: is_space_def)

lemma space_not_brace: "is_space c \<Longrightarrow> c \<noteq> CHR ''{'' \<and> c \<noteq> CHR ''}''"
  by (auto simp: is_space_def)

lemma takeWhile_spaces:
  "list_all is_space w \<Longrightarrow> takeWhile is_space (w @ xs) = w @ takeWhile is_space xs"
  by (simp add: list_all_iff takeWhile_append2)

lemma dropWhile_spaces:
  "list_all is_space w \<Longrightarrow> dropWhile is_space (w @ xs) = dropWhile is_space xs"
  by (simp add: list_all_iff dropWhile_append2)

lemma skip_space_plain:
  assumes "plain_key k"
  shows "takeWhile is_space (k @ CHR ''}'' # t) = []"
    and "dropWhile is_space (k @ CHR ''}'' # t) = k @ CHR ''}'' # t"
proof -
  have "\<not> is_space (hd (k @ CHR ''}'' # t))"
    using plain_key_chars [OF assms, of "hd k"] not_space_brace by (cases k) auto
  then show "takeWhile is_space (k @ CHR ''}'' # t) = []"
    and "dropWhile is_space (k @ CHR ''}'' # t) = k @ CHR ''}'' # t"
    by (cases k; simp)+
qed

lemma skip_space_name:
  assumes "plain_key n" "n \<noteq> []"
  shows "takeWhile is_space (n @ t) = []" and "dropWhile is_space (n @ t) = n @ t"
proof -
  from assms obtain c cs where n: "n = c # cs" by (cases n) auto
  with plain_key_chars [OF assms(1), of c] have "\<not> is_space c" by simp
  then show "takeWhile is_space (n @ t) = []" and "dropWhile is_space (n @ t) = n @ t"
    by (simp_all add: n)
qed

text \<open>The text between the braces of a placeholder, and what the pattern finds in it.\<close>

lemma match_here_inner:
  "match_here k (CHR ''{'' # CHR ''{'' # s1) =
     (if take (length k) (dropWhile is_space s1) = k
         \<and> take 2 (dropWhile is_space (drop (length k) (dropWhile is_space s1))) = ''}}''
      then Some (2 + length (takeWhile is_space s1) + length k
                 + length (takeWhile is_space (drop (length k) (dropWhile is_space s1))) + 2)
      else None)"
  by (simp add: match_here_def Let_def)

lemma match_here_hole:
  assumes "plain_key k" "list_all is_space w1" "list_all is_space w2"
  shows "match_here k (CHR ''{'' # CHR ''{'' # w1 @ k @ w2 @ CHR ''}'' # CHR ''}'' # rest)
           = Some (length w1 + length k + length w2 + 4)"
proof (cases "k = []")
  case True
  have t: "takeWhile is_space (w1 @ w2 @ CHR ''}'' # CHR ''}'' # rest) = w1 @ w2"
    and d: "dropWhile is_space (w1 @ w2 @ CHR ''}'' # CHR ''}'' # rest) = CHR ''}'' # CHR ''}'' # rest"
    by (simp_all add: takeWhile_spaces dropWhile_spaces assms not_space_brace)
  show ?thesis
    unfolding match_here_inner by (simp add: True t d not_space_brace)
next
  case False
  note n = skip_space_name [OF assms(1) False]
  have t: "takeWhile is_space (w1 @ k @ w2 @ CHR ''}'' # CHR ''}'' # rest) = w1"
    and d: "dropWhile is_space (w1 @ k @ w2 @ CHR ''}'' # CHR ''}'' # rest)
              = k @ w2 @ CHR ''}'' # CHR ''}'' # rest"
    by (simp_all add: takeWhile_spaces dropWhile_spaces assms n)
  have t2: "takeWhile is_space (w2 @ CHR ''}'' # CHR ''}'' # rest) = w2"
    and d2: "dropWhile is_space (w2 @ CHR ''}'' # CHR ''}'' # rest) = CHR ''}'' # CHR ''}'' # rest"
    by (simp_all add: takeWhile_spaces dropWhile_spaces assms not_space_brace)
  show ?thesis
    unfolding match_here_inner by (simp add: t d t2 d2)
qed

lemma replace_all_match:
  "match_here k (c # cs) = Some (Suc m) \<Longrightarrow>
   replace_all k r pre (c # cs)
     = expand r (c # take m cs) pre (drop m cs)
       @ replace_all k r (pre @ c # take m cs) (drop m cs)"
  by simp

lemma replace_all_hole_same:
  assumes "plain_key k" "list_all is_space w1" "list_all is_space w2" "dollar_safe r"
  shows "replace_all k r pre (''{{'' @ w1 @ k @ w2 @ ''}}'' @ rest)
           = r @ replace_all k r (pre @ ''{{'' @ w1 @ k @ w2 @ ''}}'') rest"
proof -
  let ?inner = "CHR ''{'' # w1 @ k @ w2 @ [CHR ''}'', CHR ''}'']"
  have m: "match_here k (CHR ''{'' # ?inner @ rest) = Some (Suc (length ?inner))"
    using match_here_hole [OF assms(1-3), of rest] by simp
  from replace_all_match [OF m, of r pre]
  have "replace_all k r pre (CHR ''{'' # ?inner @ rest)
          = r @ replace_all k r (pre @ CHR ''{'' # ?inner) rest"
    by (simp add: expand_dollar_safe [OF assms(4)])
  then show ?thesis by simp
qed

lemma prefix_of_plain:
  assumes "take (length k) (n @ c # t) = k" "c \<notin> set k"
  shows "length k \<le> length n"
proof (rule ccontr)
  assume "\<not> length k \<le> length n"
  then obtain j where j: "length k - length n = Suc j" by (cases "length k - length n") auto
  from assms(1) have "k = take (length k) n @ take (length k - length n) (c # t)"
    by simp
  with j have "c \<in> set k" by (metis in_set_conv_decomp take_Suc_Cons)
  with assms(2) show False by contradiction
qed

lemma match_here_other_hole:
  assumes "plain_key k" "plain_key n" "n \<noteq> k" "list_all is_space w1" "list_all is_space w2"
  shows "match_here k (CHR ''{'' # CHR ''{'' # w1 @ n @ w2 @ CHR ''}'' # CHR ''}'' # rest) = None"
proof -
  let ?tail = "w2 @ CHR ''}'' # CHR ''}'' # rest"
  obtain c t where tail: "?tail = c # t" and c: "is_space c \<or> c = CHR ''}''"
    using assms(5) by (cases w2) (auto simp: list_all_iff)
  have ck: "c \<notin> set k" using plain_key_chars [OF assms(1), of c] c by auto
  have d: "dropWhile is_space (w1 @ n @ ?tail) = dropWhile is_space (n @ ?tail)"
    by (simp add: dropWhile_spaces assms)
  show ?thesis
  proof (cases "take (length k) (dropWhile is_space (n @ ?tail)) = k")
    case False
    then show ?thesis unfolding match_here_inner d by simp
  next
    case True
    show ?thesis
    proof (cases "n = []")
      case True': True
      have "dropWhile is_space (n @ ?tail) = CHR ''}'' # CHR ''}'' # rest"
        by (simp add: True' dropWhile_spaces assms not_space_brace)
      with True have "take (length k) (CHR ''}'' # CHR ''}'' # rest) = k" by simp
      moreover from True' assms(3) obtain a as where "k = a # as" by (cases k) auto
      ultimately have "CHR ''}'' \<in> set k" by (cases "length k") auto
      with plain_key_chars [OF assms(1)] show ?thesis by blast
    next
      case False
      note nn = skip_space_name [OF assms(2) False]
      from True have tk: "take (length k) (n @ c # t) = k" by (simp add: nn tail)
      from prefix_of_plain [OF tk ck] have le: "length k \<le> length n" .
      with tk have "take (length k) n = k" by simp
      then obtain n' where n: "n = k @ n'" by (metis append_take_drop_id)
      with assms(3) have "n' \<noteq> []" by auto
      then obtain a as where n': "n' = a # as" by (cases n') auto
      have "a \<in> set n" by (simp add: n n')
      from plain_key_chars [OF assms(2) this] have a: "\<not> is_space a" "a \<noteq> CHR ''}''" by simp_all
      have s3: "drop (length k) (n @ ?tail) = a # as @ ?tail" by (simp add: n n')
      show ?thesis
        unfolding match_here_inner d by (simp add: nn s3 a del: take_append drop_append)
    qed
  qed
qed

lemma replace_all_hole_other:
  assumes "plain_key k" "plain_key n" "n \<noteq> k" "list_all is_space w1" "list_all is_space w2"
  shows "replace_all k r pre (''{{'' @ w1 @ n @ w2 @ ''}}'' @ rest)
           = ''{{'' @ w1 @ n @ w2 @ ''}}'' @ replace_all k r (pre @ ''{{'' @ w1 @ n @ w2 @ ''}}'') rest"
proof -
  let ?inner = "w1 @ n @ w2 @ ''}}''"
  have m1: "match_here k (CHR ''{'' # CHR ''{'' # w1 @ n @ w2 @ CHR ''}'' # CHR ''}'' # rest) = None"
    by (rule match_here_other_hole [OF assms])
  have nb: "CHR ''{'' \<notin> set ?inner"
    using plain_key_chars [OF assms(2)] space_not_brace assms(4,5)
    by (auto simp: list_all_iff)
  have "?inner \<noteq> []" by simp
  then obtain c cs where inner: "?inner = c # cs" by (cases ?inner) auto
  with nb have "c \<noteq> CHR ''{''" by (metis list.set_intros(1))
  then have "match_here k (CHR ''{'' # c # cs @ rest) = None"
    by (rule match_here_second_not_brace)
  then have m2: "match_here k (CHR ''{'' # ?inner @ rest) = None" by (simp only: inner append_Cons)
  have "replace_all k r pre (CHR ''{'' # CHR ''{'' # ?inner @ rest)
          = CHR ''{'' # CHR ''{'' # replace_all k r (pre @ ''{{'') (?inner @ rest)"
    using m1 m2 by simp
  also have "replace_all k r (pre @ ''{{'') (?inner @ rest)
          = ?inner @ replace_all k r ((pre @ ''{{'') @ ?inner) rest"
    by (rule replace_all_literal [OF no_brace_safe [OF nb]])
  finally show ?thesis by simp
qed

lemma replace_all_segments:
  assumes "plain_key k" "dollar_safe r"
  shows "list_all plain_segment segs \<Longrightarrow>
         replace_all k r pre (template_text segs) = template_text (map (fill_one k r) segs)"
proof (induction segs arbitrary: pre)
  case Nil
  show ?case by (simp add: template_text_def)
next
  case (Cons seg segs)
  then have rest: "list_all plain_segment segs" and seg: "plain_segment seg" by simp_all
  note IH = Cons.IH [OF rest]
  show ?case
  proof (cases seg)
    case (Lit s)
    with seg have "brace_safe s" by simp
    from replace_all_literal [OF this, of k r pre "template_text segs"]
    show ?thesis by (simp add: Lit template_text_def IH [unfolded template_text_def])
  next
    case (Hole w1 n w2)
    with seg have n: "plain_key n" and w: "list_all is_space w1" "list_all is_space w2"
      by simp_all
    show ?thesis
    proof (cases "n = k")
      case True
      from replace_all_hole_same [OF assms(1) w assms(2), of pre "template_text segs"]
      show ?thesis by (simp add: Hole True template_text_def IH [unfolded template_text_def])
    next
      case False
      from replace_all_hole_other [OF assms(1) n False w, of r pre "template_text segs"]
      show ?thesis by (simp add: Hole False template_text_def IH [unfolded template_text_def])
    qed
  qed
qed

lemma fill_one_plain_segment:
  "brace_safe r \<Longrightarrow> plain_segment seg \<Longrightarrow> plain_segment (fill_one k r seg)"
  by (cases seg) auto

lemma fill_one_plain:
  "brace_safe r \<Longrightarrow> list_all plain_segment segs \<Longrightarrow>
   list_all plain_segment (map (fill_one k r) segs)"
  by (induction segs) (simp_all add: fill_one_plain_segment)

lemma fill_keys_Cons:
  "fill_keys toString variables ks (fill_one k (text_of toString variables k) seg)
     = fill_keys toString variables (k # ks) seg"
  by (cases seg) auto

lemma render_key_plain:
  assumes "plain_key k" "has_text toString variables k"
  shows "render_key engine toString variables k rendered
           = Inr (replace_all k (text_of toString variables k) [] rendered)"
  using assms
  by (auto simp: render_key_def has_text_def text_of_def split: sum.splits)

lemma render_keys_total:
  "\<forall>k \<in> set ks. plain_key k \<and> has_text toString variables k \<Longrightarrow>
   \<exists>out. render_keys engine toString variables ks rendered = Inr out"
  by (induction ks arbitrary: rendered) (simp_all add: render_key_plain)

lemma render_keys_segments:
  assumes "\<forall>k \<in> set ks. plain_key k \<and> has_text toString variables k
                         \<and> plain_text (text_of toString variables k)"
    and "list_all plain_segment segs"
  shows "render_keys engine toString variables ks (template_text segs)
           = Inr (template_text (map (fill_keys toString variables ks) segs))"
  using assms
proof (induction ks arbitrary: segs)
  case Nil
  have "fill_keys toString variables [] seg = seg" for seg by (cases seg) auto
  then have "map (fill_keys toString variables []) segs = segs" by (simp add: map_idI)
  then show ?case by simp
next
  case (Cons k ks)
  let ?r = "text_of toString variables k"
  from Cons.prems have k: "plain_key k" and t: "has_text toString variables k"
    and r: "dollar_safe ?r" "brace_safe ?r"
    and ks: "\<forall>k \<in> set ks. plain_key k \<and> has_text toString variables k
                         \<and> plain_text (text_of toString variables k)"
    by (simp_all add: plain_text_def)
  have step: "replace_all k ?r [] (template_text segs) = template_text (map (fill_one k ?r) segs)"
    by (rule replace_all_segments [OF k r(1) Cons.prems(2)])
  have plain': "list_all plain_segment (map (fill_one k ?r) segs)"
    by (rule fill_one_plain [OF r(2) Cons.prems(2)])
  have "render_keys engine toString variables (k # ks) (template_text segs)
          = render_keys engine toString variables ks (template_text (map (fill_one k ?r) segs))"
    by (simp add: render_key_plain [OF k t] step)
  also have "\<dots> = Inr (template_text (map (fill_keys toString variables ks)
                                        (map (fill_one k ?r) segs)))"
    by (rule Cons.IH [OF ks plain'])
  also have "map (fill_keys toString variables ks) (map (fill_one k ?r) segs)
               = map (fill_keys toString variables (k # ks)) segs"
    by (simp add: fill_keys_Cons del: fill_keys.simps)
  finally show ?case .
qed

lemma segment_text_fill_keys:
  "segment_text (fill_keys toString variables (map fst variables) seg)
     = fill toString variables seg"
  by (cases seg) auto

text \<open>
  C2, amended.  When the keys of the values map are plain text and every value has a
  text (it is a string, falsy, or printed by the runtime), rendering succeeds for every
  template.  When, besides, the template is a sequence of brace-safe literal text and
  of placeholders with plain names, and the texts of the values are safe as
  replacements, rendering replaces every placeholder whose name is a key of the map by
  the text of its value (the empty string for a falsy value) and leaves every
  placeholder whose name is not in the map in the output as it stands.
\<close>

theorem renderTemplate_plain:
  assumes "\<forall>k \<in> set (map fst variables). plain_key k \<and> has_text toString variables k"
  shows "(\<exists>rendered. renderTemplate engine toString this variables = Inr rendered) \<and>
         (template this = template_text segs \<and> list_all plain_segment segs \<and>
          (\<forall>k \<in> set (map fst variables). plain_text (text_of toString variables k))
          \<longrightarrow> renderTemplate engine toString this variables
                = Inr (concat (map (fill toString variables) segs)))"
proof (intro conjI impI)
  show "\<exists>rendered. renderTemplate engine toString this variables = Inr rendered"
    unfolding renderTemplate_def by (rule render_keys_total [OF assms])
next
  assume h: "template this = template_text segs \<and> list_all plain_segment segs \<and>
          (\<forall>k \<in> set (map fst variables). plain_text (text_of toString variables k))"
  with assms have keys: "\<forall>k \<in> set (map fst variables). plain_key k
      \<and> has_text toString variables k \<and> plain_text (text_of toString variables k)"
    by blast
  from h have segs: "list_all plain_segment segs" and t: "template this = template_text segs"
    by simp_all
  have "renderTemplate engine toString this variables
          = Inr (template_text (map (fill_keys toString variables (map fst variables)) segs))"
    unfolding renderTemplate_def t by (rule render_keys_segments [OF keys segs])
  also have "template_text (map (fill_keys toString variables (map fst variables)) segs)
               = concat (map (fill toString variables) segs)"
    by (simp add: template_text_def segment_text_fill_keys o_def)
  finally show "renderTemplate engine toString this variables
                = Inr (concat (map (fill toString variables) segs))" .
qed

lemmas render_eval = renderTemplate_def render_key_def replaceValue_def replacement_of_def
  prop_get_def plain_key_def unclosed_group_def regex_syntax_chars_def is_space_def
  match_here_def Let_def

text \<open>The default template for an assigned task, with both of its values.\<close>

theorem renderTemplate_plain_witness:
  \<open>renderTemplate rejecting_engine rejecting_toString
      \<lparr>type_id = 5, key = ''task_assigned'',
        description = Some ''Notification when a task is assigned to a user'',
        template = ''You have been assigned a new task: "{{task_title}}" in project "{{project_name}}".''\<rparr>
      [(''task_title'', JStr ''Fix bug''), (''project_name'', JStr ''Alpha'')]
     = Inr ''You have been assigned a new task: "Fix bug" in project "Alpha".''\<close>
proof -
  let ?nt = \<open>\<lparr>type_id = 5, key = ''task_assigned'',
        description = Some ''Notification when a task is assigned to a user'',
        template = ''You have been assigned a new task: "{{task_title}}" in project "{{project_name}}".''\<rparr>\<close>
  let ?segs = \<open>[Lit ''You have been assigned a new task: "'', Hole [] ''task_title'' [],
                Lit ''" in project "'', Hole [] ''project_name'' [], Lit ''".'']\<close>
  let ?vars = \<open>[(''task_title'', JStr ''Fix bug''), (''project_name'', JStr ''Alpha'')]\<close>
  have a: "template ?nt = template_text ?segs" by (simp add: template_text_def)
  have b: "list_all plain_segment ?segs"
    by (simp add: plain_key_def regex_syntax_chars_def is_space_def)
  have texts: "text_of rejecting_toString ?vars ''task_title'' = ''Fix bug''"
    "text_of rejecting_toString ?vars ''project_name'' = ''Alpha''"
    "has_text rejecting_toString ?vars ''task_title''"
    "has_text rejecting_toString ?vars ''project_name''"
    by (simp_all add: text_of_def has_text_def replacement_of_def replaceValue_def prop_get_def)
  have c: "\<forall>k \<in> set (map fst ?vars). plain_key k \<and> has_text rejecting_toString ?vars k"
    by (simp add: plain_key_def regex_syntax_chars_def is_space_def texts)
  have d: "\<forall>k \<in> set (map fst ?vars). plain_text (text_of rejecting_toString ?vars k)"
    by (simp add: texts plain_text_def)
  from renderTemplate_plain [OF c, of rejecting_engine ?nt ?segs, THEN conjunct2, rule_format,
      OF conjI [OF a conjI [OF b d]]]
  show ?thesis by (simp add: texts)
qed

text \<open>
  With no value for its name a placeholder stays in the output; a value \<^verbatim>\<open>$&\<close> puts the
  placeholder back; a value that is itself a placeholder of a later key, or that ends in
  a brace completed by the text after it, is replaced in turn; so is a value put between
  literal braces; and the key \<^verbatim>\<open>(\<close> makes rendering fail.
\<close>

theorem renderTemplate_unresolved_counterexample:
  \<open>renderTemplate rejecting_engine rejecting_toString
      \<lparr>type_id = 5, key = ''greeting'', description = None, template = ''Hi {{name}}''\<rparr> []
     = Inr ''Hi {{name}}'' \<and>
   renderTemplate rejecting_engine rejecting_toString
      \<lparr>type_id = 5, key = ''greeting'', description = None, template = ''Hi {{name}}''\<rparr>
      [(''name'', JStr ''$&'')]
     = Inr ''Hi {{name}}'' \<and>
   renderTemplate rejecting_engine rejecting_toString
      \<lparr>type_id = 5, key = ''greeting'', description = None, template = ''Hi {{a}}''\<rparr>
      [(''a'', JStr ''{{b}}''), (''b'', JStr ''x'')]
     = Inr ''Hi x'' \<and>
   renderTemplate rejecting_engine rejecting_toString
      \<lparr>type_id = 5, key = ''greeting'', description = None, template = ''{{a}}{b}}''\<rparr>
      [(''a'', JStr ''{''), (''b'', JStr ''x'')]
     = Inr ''x'' \<and>
   renderTemplate rejecting_engine rejecting_toString
      \<lparr>type_id = 5, key = ''greeting'', description = None, template = ''{{{{a}}}}''\<rparr>
      [(''a'', JStr ''b''), (''b'', JStr ''x'')]
     = Inr ''x'' \<and>
   renderTemplate rejecting_engine rejecting_toString
      \<lparr>type_id = 5, key = ''greeting'', description = None, template = ''Hi {{name}}''\<rparr>
      [(''('', JStr ''x'')]
     = Inl SyntaxError\<close>
  by (simp add: render_eval)

end
